theory Spec2Isabelle
  imports Complex_Main "HOL-Library.Log_Nat" "HOL-Library.AList"
begin

section \<open>Python floats\<close>

text \<open>
  The exporter computes every stake and reward in Python \<^verbatim>\<open>float\<close>s, that is IEEE 754
  binary64. A finite double is modelled by the rational number it denotes, and every
  arithmetic operation is the exact operation followed by \<open>fl\<close>, rounding to the nearest
  number with a 53 bit significand, ties to the even significand. The exponent range is
  not bounded: overflow to infinity and gradual underflow are outside the model (raw
  balances are 128 bit unsigned integers and reward points 32 bit unsigned integers, which
  stay far away from both).
\<close>

type_synonym pyfloat = rat

definition ilog2 :: "rat \<Rightarrow> int" where
  \<comment> \<open>for \<open>0 < x\<close>: the integer \<open>k\<close> with \<open>2 powi k \<le> x < 2 powi (k + 1)\<close>\<close>
  "ilog2 x = (if 1 \<le> x then bitlen \<lfloor>x\<rfloor> - 1 else - bitlen (\<lceil>1 / x\<rceil> - 1))"

definition rne :: "rat \<Rightarrow> int" where
  \<comment> \<open>round to the nearest integer, ties to even\<close>
  "rne x = (let f = \<lfloor>x\<rfloor>; d = x - of_int f in
     if d < 1 / 2 then f
     else if 1 / 2 < d then f + 1
     else if even f then f else f + 1)"

definition fl :: "rat \<Rightarrow> pyfloat" where
  "fl x = (if x = 0 then 0
     else (let a = \<bar>x\<bar>; e = ilog2 a - 52; m = of_int (rne (a / 2 powi e)) * 2 powi e in
        if x < 0 then - m else m))"

definition fadd :: "pyfloat \<Rightarrow> pyfloat \<Rightarrow> pyfloat" where
  "fadd a b = fl (a + b)"

definition fsub :: "pyfloat \<Rightarrow> pyfloat \<Rightarrow> pyfloat" where
  "fsub a b = fl (a - b)"

definition fmul :: "pyfloat \<Rightarrow> pyfloat \<Rightarrow> pyfloat" where
  "fmul a b = fl (a * b)"

definition fdiv :: "pyfloat \<Rightarrow> pyfloat \<Rightarrow> pyfloat" where
  \<comment> \<open>division by a divisor known to be non-zero\<close>
  "fdiv a b = fl (a / b)"

definition e18 :: pyfloat where
  \<comment> \<open>the literal \<^verbatim>\<open>1e18\<close>, which is a double\<close>
  "e18 = 10 ^ 18"

section \<open>Exceptions and query results\<close>

datatype error = QueryError | TypeError | KeyError | ValueError | ZeroDivisionError

text \<open>
  \<^verbatim>\<open>substrate.query\<close> is the chain client. A call raises, or returns an object that the
  code's truth test rejects (\<^verbatim>\<open>if exposure:\<close>, \<^verbatim>\<open>if era_reward and era_reward.value:\<close>),
  or returns a decoded value.
\<close>

datatype 'a reply = Raises | Falsy | Value 'a

text \<open>A decoded field on which the code calls \<^verbatim>\<open>float(...)\<close>: a Python integer, or
  something \<^verbatim>\<open>float\<close> rejects.\<close>

datatype scalar = Num int | NotNum

definition py_float :: "scalar \<Rightarrow> error + pyfloat" where
  "py_float s = (case s of Num n \<Rightarrow> Inr (fl (of_int n)) | NotNum \<Rightarrow> Inl ValueError)"

definition subscript :: "'a option \<Rightarrow> error + 'a" where
  \<comment> \<open>\<^verbatim>\<open>d[key]\<close>: a missing key raises\<close>
  "subscript field = (case field of None \<Rightarrow> Inl KeyError | Some x \<Rightarrow> Inr x)"

definition py_truediv :: "pyfloat \<Rightarrow> pyfloat \<Rightarrow> error + pyfloat" where
  "py_truediv a b = (if b = 0 then Inl ZeroDivisionError else Inr (fdiv a b))"

definition and_then :: "error + 'a \<Rightarrow> ('a \<Rightarrow> error + 'b) \<Rightarrow> error + 'b" where
  \<comment> \<open>sequencing: the first raise ends the block\<close>
  "and_then r f = (case r of Inl e \<Rightarrow> Inl e | Inr x \<Rightarrow> f x)"

section \<open>Chain data\<close>

text \<open>An entry of \<^verbatim>\<open>reward_points.value\<close>: a list of at least two elements, seen as
  \<^verbatim>\<open>str(entry[0])\<close> and \<^verbatim>\<open>entry[1]\<close>, or anything else, which both loops skip.\<close>

datatype rp_entry = Entry string scalar | Malformed

datatype reward_points = PointsList "rp_entry list" | NotAList

record exposure =
  ex_own :: "scalar option"
  ex_total :: "scalar option"
  ex_others :: "(string \<times> int) list option"

datatype idval =
    Empty
  | RawDict string
  | NoneDict
  | OtherDict string
  | Decodable "string option" string
  | Other string

record id_info =
  info_display :: idval
  info_legal :: idval
  info_web :: idval
  info_riot :: idval
  info_email :: idval
  info_twitter :: idval

text \<open>
  The chain as the exporter queries it during one poll cycle, one field for each storage
  item: \<open>active_era\<close> is \<^verbatim>\<open>query("Staking", "ActiveEra").value["index"]\<close>,
  \<open>staking_validators\<close> the keys \<^verbatim>\<open>str(v[0])\<close> of \<^verbatim>\<open>query_map("Staking", "Validators")\<close>,
  \<open>super_of\<close> the pair \<^verbatim>\<open>(str(parent.value[0]), parent.value[1])\<close>, \<open>identity_of\<close> the
  \<^verbatim>\<open>"info"\<close> dictionary of the identity record with a missing key read as \<open>Empty\<close>.
\<close>

record substrate =
  active_era :: "nat reply"
  staking_validators :: "string list reply"
  session_validators :: "string list reply"
  eras_stakers :: "nat \<Rightarrow> string \<Rightarrow> exposure reply"
  eras_reward_points :: "nat \<Rightarrow> reward_points reply"
  eras_validator_reward :: "nat \<Rightarrow> int reply"
  super_of :: "string \<Rightarrow> (string \<times> idval) reply"
  identity_of :: "string \<Rightarrow> id_info reply"

section \<open>get_era_rewards and get_era_slashes\<close>

fun total_points_pass :: "rp_entry list \<Rightarrow> pyfloat \<Rightarrow> error + pyfloat" where
  "total_points_pass [] total_points = Inr total_points"
| "total_points_pass (Malformed # es) total_points = total_points_pass es total_points"
| "total_points_pass (Entry a p # es) total_points =
     and_then (py_float p) (\<lambda>x. total_points_pass es (fadd total_points x))"

fun validator_points_pass :: "rp_entry list \<Rightarrow> string \<Rightarrow> error + pyfloat" where
  "validator_points_pass [] validator = Inr 0"
| "validator_points_pass (Malformed # es) validator = validator_points_pass es validator"
| "validator_points_pass (Entry a p # es) validator =
     (if a = validator then py_float p else validator_points_pass es validator)"

definition guard_total :: "pyfloat \<Rightarrow> pyfloat" where
  "guard_total total_points = (if total_points = 0 then 1 else total_points)"

definition reward_points_body ::
  "substrate \<Rightarrow> string \<Rightarrow> nat \<Rightarrow> reward_points \<Rightarrow> error + pyfloat option" where
  \<comment> \<open>the inner \<^verbatim>\<open>try\<close> block: \<open>Inl\<close> a raise, \<open>Inr None\<close> falling through without
     \<^verbatim>\<open>return\<close>, \<open>Inr (Some r)\<close> returning \<open>r\<close>\<close>
  "reward_points_body sub validator era_index rp =
     (case rp of
        NotAList \<Rightarrow> Inr None
      | PointsList es \<Rightarrow>
          and_then (total_points_pass es 0) (\<lambda>total_points.
          and_then (validator_points_pass es validator) (\<lambda>validator_points.
            (case eras_validator_reward sub era_index of
               Raises \<Rightarrow> Inl QueryError
             | Falsy \<Rightarrow> Inr None
             | Value raw \<Rightarrow>
                 if raw = 0 then Inr None
                 else
                   (let total_reward = fdiv (fl (of_int raw)) e18 in
                    and_then (py_truediv validator_points (guard_total total_points))
                      (\<lambda>share. Inr (Some (fmul share total_reward))))))))"

definition get_era_rewards :: "substrate \<Rightarrow> string \<Rightarrow> nat \<Rightarrow> pyfloat" where
  "get_era_rewards sub validator era_index =
     (case eras_reward_points sub era_index of
        Raises \<Rightarrow> 0
      | Falsy \<Rightarrow> 0
      | Value rp \<Rightarrow>
          (case reward_points_body sub validator era_index rp of
             Inl e \<Rightarrow> 0
           | Inr None \<Rightarrow> 0
           | Inr (Some validator_reward) \<Rightarrow> validator_reward))"

definition get_era_slashes :: "substrate \<Rightarrow> string \<Rightarrow> nat \<Rightarrow> pyfloat" where
  "get_era_slashes sub validator era_index = 0"

section \<open>get_validator_stakes\<close>

text \<open>The dictionary stored for a validator. The zeroed dictionary holds the integers
  \<^verbatim>\<open>0\<close>, which Python compares equal to \<^verbatim>\<open>0.0\<close>; both are the number \<open>0\<close> here.\<close>

record snapshot =
  self_stake :: pyfloat
  total_stake :: pyfloat
  nominations :: pyfloat
  nominator_count :: nat
  rewards :: pyfloat
  slashes :: pyfloat

type_synonym stakes = "(string \<times> snapshot) list"

definition zero_snapshot :: snapshot where
  "zero_snapshot = \<lparr>self_stake = 0, total_stake = 0, nominations = 0,
     nominator_count = 0, rewards = 0, slashes = 0\<rparr>"

definition read_balances ::
  "substrate \<Rightarrow> nat \<Rightarrow> string \<Rightarrow> error + (pyfloat \<times> pyfloat \<times> pyfloat \<times> nat) option" where
  \<comment> \<open>the exposure query and the four assignments under \<^verbatim>\<open>if exposure:\<close>:
     \<open>Inl\<close> a raise, \<open>Inr None\<close> a falsy result, else \<open>(own, total, others, nominators)\<close>\<close>
  "read_balances sub era_index validator =
     (case eras_stakers sub era_index validator of
        Raises \<Rightarrow> Inl QueryError
      | Falsy \<Rightarrow> Inr None
      | Value ex \<Rightarrow>
          and_then (and_then (subscript (ex_own ex)) py_float) (\<lambda>own_raw.
          and_then (and_then (subscript (ex_total ex)) py_float) (\<lambda>total_raw.
            (let own = fdiv own_raw e18;
                 total = fdiv total_raw e18;
                 others = fsub total own;
                 nominators = (case ex_others ex of None \<Rightarrow> 0 | Some l \<Rightarrow> length l)
             in Inr (Some (own, total, others, nominators))))))"

definition read_exposure :: "substrate \<Rightarrow> nat \<Rightarrow> string \<Rightarrow> error + snapshot option" where
  \<comment> \<open>the \<^verbatim>\<open>try\<close> block of the loop: \<open>Inl\<close> a raise, \<open>Inr None\<close> nothing stored,
     \<open>Inr (Some s)\<close> the dictionary stored\<close>
  "read_exposure sub era_index validator =
     and_then (read_balances sub era_index validator) (\<lambda>balances.
       (case balances of
          None \<Rightarrow> Inr None
        | Some (own, tot, others, nominators) \<Rightarrow>
            (let rewards = get_era_rewards sub validator era_index;
                 slashes = get_era_slashes sub validator era_index
             in Inr (Some \<lparr>self_stake = own, total_stake = tot, nominations = others,
                  nominator_count = nominators, rewards = rewards, slashes = slashes\<rparr>))))"

fun stakes_loop :: "substrate \<Rightarrow> nat \<Rightarrow> string list \<Rightarrow> stakes \<Rightarrow> stakes" where
  "stakes_loop sub era_index [] stakes = stakes"
| "stakes_loop sub era_index (validator # validators) stakes =
     stakes_loop sub era_index validators
       (case read_exposure sub era_index validator of
          Inl e \<Rightarrow> AList.update validator zero_snapshot stakes
        | Inr None \<Rightarrow> stakes
        | Inr (Some s) \<Rightarrow> AList.update validator s stakes)"

definition era_index_of :: "substrate \<Rightarrow> error + nat" where
  "era_index_of sub =
     (case active_era sub of
        Raises \<Rightarrow> Inl QueryError
      | Falsy \<Rightarrow> Inl TypeError
      | Value i \<Rightarrow> Inr i)"

definition get_validator_stakes :: "substrate \<Rightarrow> string list \<Rightarrow> error + stakes" where
  "get_validator_stakes sub validators =
     and_then (era_index_of sub) (\<lambda>era_index. Inr (stakes_loop sub era_index validators []))"

section \<open>get_identities\<close>

text \<open>
  The argument of \<open>extract_identity_value\<close> by the branch it takes: \<open>Empty\<close> is a falsy
  value, \<open>RawDict raw\<close> a dictionary with the key \<^verbatim>\<open>'Raw'\<close> (\<open>raw\<close> is
  \<^verbatim>\<open>str(value['Raw'])\<close>), \<open>NoneDict\<close> a dictionary with \<^verbatim>\<open>'None'\<close> and without \<^verbatim>\<open>'Raw'\<close>,
  \<open>OtherDict\<close> any other dictionary, \<open>Decodable\<close> a value with a \<^verbatim>\<open>decode\<close> method (\<open>None\<close>
  when \<^verbatim>\<open>decode()\<close> raises, which the handler answers with \<^verbatim>\<open>str(value)\<close>), \<open>Other\<close>
  anything else; \<open>shown\<close> is \<^verbatim>\<open>str(value)\<close>.
\<close>

fun extract_identity_value :: "idval \<Rightarrow> string" where
  "extract_identity_value Empty = ''''"
| "extract_identity_value (RawDict raw) = raw"
| "extract_identity_value NoneDict = ''''"
| "extract_identity_value (OtherDict shown) = shown"
| "extract_identity_value (Decodable (Some decoded) shown) = decoded"
| "extract_identity_value (Decodable None shown) = shown"
| "extract_identity_value (Other shown) = shown"

record identity =
  display :: string
  legal :: string
  web :: string
  riot :: string
  email :: string
  twitter :: string

type_synonym identities = "(string \<times> identity) list"

definition empty_identity :: identity where
  "empty_identity = \<lparr>display = '''', legal = '''', web = '''', riot = '''',
     email = '''', twitter = ''''\<rparr>"

definition identity_info :: "substrate \<Rightarrow> string \<Rightarrow> identity" where
  \<comment> \<open>the body of the loop of \<open>get_identities\<close>: the dictionary stored for \<open>wallet\<close>\<close>
  "identity_info sub wallet =
     (case super_of sub wallet of
        Raises \<Rightarrow> empty_identity
      | Value parent \<Rightarrow>
          (let sub_identity_name = extract_identity_value (snd parent);
               parent_wallet = fst parent
           in case identity_of sub parent_wallet of
                Raises \<Rightarrow> empty_identity
              | Falsy \<Rightarrow> empty_identity
              | Value info \<Rightarrow>
                  (let display_name = extract_identity_value (info_display info) in
                   \<lparr>display =
                      (if display_name \<noteq> '''' then display_name @ ''/'' @ sub_identity_name
                       else sub_identity_name),
                    legal = extract_identity_value (info_legal info),
                    web = extract_identity_value (info_web info),
                    riot = extract_identity_value (info_riot info),
                    email = extract_identity_value (info_email info),
                    twitter = extract_identity_value (info_twitter info)\<rparr>))
      | Falsy \<Rightarrow>
          (case identity_of sub wallet of
             Raises \<Rightarrow> empty_identity
           | Falsy \<Rightarrow> empty_identity
           | Value info \<Rightarrow>
               \<lparr>display = extract_identity_value (info_display info),
                legal = extract_identity_value (info_legal info),
                web = extract_identity_value (info_web info),
                riot = extract_identity_value (info_riot info),
                email = extract_identity_value (info_email info),
                twitter = extract_identity_value (info_twitter info)\<rparr>))"

fun identities_loop :: "substrate \<Rightarrow> string list \<Rightarrow> identities \<Rightarrow> identities" where
  "identities_loop sub [] ids = ids"
| "identities_loop sub (wallet # wallets) ids =
     identities_loop sub wallets (AList.update wallet (identity_info sub wallet) ids)"

definition get_identities :: "substrate \<Rightarrow> string list \<Rightarrow> identities" where
  "get_identities sub wallets = identities_loop sub wallets []"

section \<open>Gauges and track_stake_movements\<close>

text \<open>A gauge family holds the last value set for each label triple; \<^verbatim>\<open>set\<close> stores
  \<^verbatim>\<open>float(value)\<close>.\<close>

type_synonym gauge = "string \<times> string \<times> string \<rightharpoonup> pyfloat"

record exporter =
  VALIDATOR_SELF_STAKE :: gauge
  VALIDATOR_CAPS_IN :: gauge
  VALIDATOR_CAPS_OUT :: gauge
  VALIDATOR_REWARDS :: gauge
  VALIDATOR_NOMINATIONS :: gauge
  VALIDATOR_TOTAL_STAKE :: gauge
  VALIDATOR_NOMINATOR_COUNT :: gauge
  previous_stakes :: stakes

definition track_stake_movements ::
  "exporter \<Rightarrow> string \<Rightarrow> string \<Rightarrow> pyfloat \<Rightarrow> pyfloat option
     \<Rightarrow> exporter \<times> (pyfloat \<times> pyfloat)" where
  "track_stake_movements st validator name current_stake previous_stake =
     (case previous_stake of
        None \<Rightarrow> (st, (0, 0))
      | Some previous \<Rightarrow>
          (let stake_difference = fsub current_stake previous in
           if 0 < stake_difference then
             (st\<lparr>VALIDATOR_CAPS_IN :=
                  (VALIDATOR_CAPS_IN st)((validator, name, ''nomination'') \<mapsto> stake_difference)\<rparr>,
              (stake_difference, 0))
           else if stake_difference < 0 then
             (let abs_difference = \<bar>stake_difference\<bar> in
              (st\<lparr>VALIDATOR_CAPS_OUT :=
                   (VALIDATOR_CAPS_OUT st)((validator, name, ''unstake'') \<mapsto> abs_difference)\<rparr>,
               (0, abs_difference)))
           else (st, (0, 0))))"

section \<open>update_metrics\<close>

fun str_nat :: "nat \<Rightarrow> string" where
  \<comment> \<open>\<^verbatim>\<open>str\<close> of a non-negative integer\<close>
  "str_nat n =
     (if n < 10 then [char_of (48 + n)] else str_nat (n div 10) @ [char_of (48 + n mod 10)])"

declare str_nat.simps [simp del]

definition validator_name :: "identities \<Rightarrow> string \<Rightarrow> string" where
  \<comment> \<open>\<^verbatim>\<open>validators_id.get(validator, {}).get("display", "") or validator[:20]\<close>\<close>
  "validator_name validators_id validator =
     (let shown = (case map_of validators_id validator of None \<Rightarrow> '''' | Some i \<Rightarrow> display i)
      in if shown \<noteq> '''' then shown else take 20 validator)"

definition emit_validator ::
  "string list \<Rightarrow> identities \<Rightarrow> nat \<Rightarrow> string \<times> snapshot \<Rightarrow> exporter \<Rightarrow> exporter" where
  \<comment> \<open>the body of the loop over \<^verbatim>\<open>validator_stakes.items()\<close>\<close>
  "emit_validator active_validators validators_id current_era item st =
     (let validator = fst item;
          stake_info = snd item;
          status = (if validator \<in> set active_validators then ''active'' else ''waiting'');
          name = validator_name validators_id validator;
          current_total = total_stake stake_info;
          previous_total = map_option total_stake (map_of (previous_stakes st) validator);
          st1 = fst (track_stake_movements st validator name current_total previous_total);
          st2 = st1\<lparr>VALIDATOR_SELF_STAKE :=
                  (VALIDATOR_SELF_STAKE st1)((validator, name, status) \<mapsto> self_stake stake_info)\<rparr>;
          st3 = st2\<lparr>VALIDATOR_NOMINATIONS :=
                  (VALIDATOR_NOMINATIONS st2)((validator, name, status) \<mapsto> nominations stake_info)\<rparr>;
          st4 = st3\<lparr>VALIDATOR_TOTAL_STAKE :=
                  (VALIDATOR_TOTAL_STAKE st3)((validator, name, status) \<mapsto> total_stake stake_info)\<rparr>;
          st5 = st4\<lparr>VALIDATOR_NOMINATOR_COUNT :=
                  (VALIDATOR_NOMINATOR_COUNT st4)((validator, name, status) \<mapsto>
                     fl (of_nat (nominator_count stake_info)))\<rparr>
      in if 0 < rewards stake_info then
           st5\<lparr>VALIDATOR_REWARDS :=
                 (VALIDATOR_REWARDS st5)((validator, name, str_nat current_era) \<mapsto>
                    rewards stake_info)\<rparr>
         else st5)"

fun emit_loop ::
  "string list \<Rightarrow> identities \<Rightarrow> nat \<Rightarrow> stakes \<Rightarrow> exporter \<Rightarrow> exporter" where
  "emit_loop active_validators validators_id current_era [] st = st"
| "emit_loop active_validators validators_id current_era (item # items) st =
     emit_loop active_validators validators_id current_era items
       (emit_validator active_validators validators_id current_era item st)"

definition listed :: "string list reply \<Rightarrow> error + string list" where
  \<comment> \<open>iterating a query result: an empty result is the falsy one\<close>
  "listed r = (case r of Raises \<Rightarrow> Inl QueryError | Falsy \<Rightarrow> Inr [] | Value xs \<Rightarrow> Inr xs)"

definition update_metrics :: "substrate \<Rightarrow> exporter \<Rightarrow> error option \<times> exporter" where
  \<comment> \<open>the exception raised to \<open>metrics_loop\<close>, if any, and the gauges and
     \<open>previous_stakes\<close> after the call\<close>
  "update_metrics sub st =
     (case
        and_then (listed (staking_validators sub)) (\<lambda>validators.
        and_then (listed (session_validators sub)) (\<lambda>active_validators.
        and_then (get_validator_stakes sub validators) (\<lambda>validator_stakes.
          (let validators_id = get_identities sub validators in
           and_then (era_index_of sub) (\<lambda>current_era.
             Inr ((emit_loop active_validators validators_id current_era validator_stakes st)
                    \<lparr>previous_stakes := validator_stakes\<rparr>))))))
      of Inl e \<Rightarrow> (Some e, st)
       | Inr st' \<Rightarrow> (None, st'))"

section \<open>Auxiliary definitions\<close>

text \<open>What one pass of the loop of \<open>get_validator_stakes\<close> leaves under the key
  \<open>validator\<close>, given what was there before.\<close>

definition stored :: "substrate \<Rightarrow> nat \<Rightarrow> string \<Rightarrow> snapshot option \<Rightarrow> snapshot option" where
  "stored sub era_index validator before =
     (case read_exposure sub era_index validator of
        Inl e \<Rightarrow> Some zero_snapshot
      | Inr None \<Rightarrow> before
      | Inr (Some s) \<Rightarrow> Some s)"

text \<open>
  The reward computation as the specification words it, over a readable points table,
  that is a list of pairs of an address and an unsigned number of points:
  \<open>spec_validator_points\<close> is the points of the first pair with the validator's address,
  \<open>0\<close> without one, and \<open>spec_total_points\<close> the sum of the points of all pairs, both as
  floats. \<open>points_entries\<close> is the table as the chain client returns it.
\<close>

definition points_entries :: "(string \<times> nat) list \<Rightarrow> rp_entry list" where
  "points_entries table = map (\<lambda>row. Entry (fst row) (Num (int (snd row)))) table"

definition spec_validator_points :: "(string \<times> nat) list \<Rightarrow> string \<Rightarrow> pyfloat" where
  "spec_validator_points table validator =
     (case find (\<lambda>row. fst row = validator) table of
        None \<Rightarrow> 0
      | Some row \<Rightarrow> fl (of_nat (snd row)))"

definition spec_total_points :: "(string \<times> nat) list \<Rightarrow> pyfloat" where
  "spec_total_points table = foldl fadd 0 (map (\<lambda>row. fl (of_nat (snd row))) table)"

section \<open>Example chains\<close>

definition exposure_of :: "int \<Rightarrow> int \<Rightarrow> exposure" where
  "exposure_of own_raw total_raw =
     \<lparr>ex_own = Some (Num own_raw), ex_total = Some (Num total_raw),
      ex_others = Some [(''n1'', total_raw - own_raw)]\<rparr>"

definition idle_chain :: substrate where
  "idle_chain = \<lparr>active_era = Value 7,
     staking_validators = Value [''v1'', ''v2''],
     session_validators = Value [''v1''],
     eras_stakers = (\<lambda>era validator. Falsy),
     eras_reward_points = (\<lambda>era. Falsy),
     eras_validator_reward = (\<lambda>era. Falsy),
     super_of = (\<lambda>wallet. Falsy),
     identity_of = (\<lambda>wallet. Falsy)\<rparr>"

definition chain_exposure_fails :: substrate where
  "chain_exposure_fails = idle_chain\<lparr>eras_stakers :=
     (\<lambda>era validator. if validator = ''v1'' then Raises
        else Value (exposure_of (10 ^ 18) (3 * 10 ^ 18)))\<rparr>"

definition chain_exposure_falsy :: substrate where
  "chain_exposure_falsy = idle_chain\<lparr>eras_stakers :=
     (\<lambda>era validator. if validator = ''v1'' then Falsy
        else Value (exposure_of (10 ^ 18) (3 * 10 ^ 18)))\<rparr>"

definition chain_reward_fails :: substrate where
  "chain_reward_fails = idle_chain\<lparr>
     eras_stakers := (\<lambda>era validator. Value (exposure_of (10 ^ 18) (3 * 10 ^ 18))),
     eras_reward_points := (\<lambda>era. Raises)\<rparr>"

definition chain_rounding :: substrate where
  "chain_rounding = idle_chain\<lparr>
     eras_stakers := (\<lambda>era validator. Value (exposure_of (2 * 10 ^ 17) (9 * 10 ^ 17)))\<rparr>"

definition chain_points :: substrate where
  "chain_points = idle_chain\<lparr>
     eras_reward_points :=
       (\<lambda>era. Value (PointsList (points_entries [(''v1'', 30), (''v2'', 70)]))),
     eras_validator_reward := (\<lambda>era. Value (1000 * 10 ^ 18))\<rparr>"

definition chain_zero_points :: substrate where
  "chain_zero_points = idle_chain\<lparr>
     eras_reward_points :=
       (\<lambda>era. Value (PointsList (points_entries [(''v1'', 0), (''v2'', 0)]))),
     eras_validator_reward := (\<lambda>era. Value (1000 * 10 ^ 18))\<rparr>"

definition chain_era_fails :: substrate where
  "chain_era_fails = idle_chain\<lparr>active_era := Raises\<rparr>"

definition named :: "idval \<Rightarrow> id_info" where
  "named shown = \<lparr>info_display = shown, info_legal = Empty, info_web = Empty,
     info_riot = Empty, info_email = Empty, info_twitter = Empty\<rparr>"

definition chain_identities :: substrate where
  "chain_identities = idle_chain\<lparr>
     super_of := (\<lambda>wallet. if wallet = ''v1'' then Value (''p1'', RawDict ''alice'')
        else if wallet = ''v2'' then Value (''p2'', RawDict ''alice'') else Falsy),
     identity_of := (\<lambda>wallet. if wallet = ''p1'' then Value (named (RawDict ''Bob''))
        else if wallet = ''p2'' then Value (named NoneDict) else Falsy)\<rparr>"

definition exporter_0 :: exporter where
  "exporter_0 = \<lparr>VALIDATOR_SELF_STAKE = Map.empty, VALIDATOR_CAPS_IN = Map.empty,
     VALIDATOR_CAPS_OUT = Map.empty, VALIDATOR_REWARDS = Map.empty,
     VALIDATOR_NOMINATIONS = Map.empty, VALIDATOR_TOTAL_STAKE = Map.empty,
     VALIDATOR_NOMINATOR_COUNT = Map.empty,
     previous_stakes = [(''v1'', zero_snapshot\<lparr>total_stake := 80\<rparr>)]\<rparr>"

text \<open>The values of the seven gauge families at one label triple.\<close>

definition gauges_at :: "exporter \<Rightarrow> string \<times> string \<times> string \<Rightarrow> pyfloat option list" where
  "gauges_at st labels =
     [VALIDATOR_SELF_STAKE st labels, VALIDATOR_CAPS_IN st labels, VALIDATOR_CAPS_OUT st labels,
      VALIDATOR_REWARDS st labels, VALIDATOR_NOMINATIONS st labels,
      VALIDATOR_TOTAL_STAKE st labels, VALIDATOR_NOMINATOR_COUNT st labels]"

text \<open>The status label that the loop of \<open>update_metrics\<close> computes for a validator.\<close>

definition status_of :: "string list \<Rightarrow> string \<Rightarrow> string" where
  "status_of active_validators validator =
     (if validator \<in> set active_validators then ''active'' else ''waiting'')"

definition chain_cycle :: substrate where
  "chain_cycle = idle_chain\<lparr>
     eras_stakers := (\<lambda>era validator. Value (exposure_of (10 ^ 18) (3 * 10 ^ 18))),
     eras_reward_points := (\<lambda>era. Value (PointsList (points_entries [(''v1'', 100)]))),
     eras_validator_reward := (\<lambda>era. Value (1000 * 10 ^ 18))\<rparr>"

definition chain_orphan :: substrate where
  "chain_orphan = idle_chain\<lparr>
     super_of := (\<lambda>wallet. if wallet = ''v1'' then Value (''p1'', RawDict ''alice'') else Falsy)\<rparr>"

section \<open>Facts about rounding\<close>

lemma fl_zero: "fl 0 = 0"
  by (simp add: fl_def)

lemma fsub_self: "fsub a a = 0"
  by (simp add: fsub_def fl_zero)

lemma fmul_zero_right: "fmul a 0 = 0"
  by (simp add: fmul_def fl_zero)

lemma fmul_zero_left: "fmul 0 a = 0"
  by (simp add: fmul_def fl_zero)

lemma fdiv_zero_left: "fdiv 0 a = 0"
  by (simp add: fdiv_def fl_zero)

lemma rne_of_int: "rne (of_int z) = z"
  by (simp add: rne_def)

lemma bitlen_le_53:
  assumes "0 < n" "n < 2 ^ 53"
  shows "bitlen (int n) \<le> 53" "1 \<le> bitlen (int n)"
proof -
  have pos: "0 < int n" using assms by simp
  from bitlen_bounds [OF pos] have lo: "2 ^ nat (bitlen (int n) - 1) \<le> int n" by simp
  show "bitlen (int n) \<le> 53"
  proof (rule ccontr)
    assume "\<not> bitlen (int n) \<le> 53"
    then have "53 \<le> nat (bitlen (int n) - 1)" by simp
    then have "(2::int) ^ 53 \<le> 2 ^ nat (bitlen (int n) - 1)"
      by (rule power_increasing) simp
    from order_trans [OF this lo] have "(2::int) ^ 53 \<le> int n" .
    moreover have "int n < 2 ^ 53"
      using assms(2) by (metis of_nat_less_numeral_power_cancel_iff)
    ultimately show False by linarith
  qed
  show "1 \<le> bitlen (int n)"
    using pos by (simp add: bitlen_alt_def)
qed

text \<open>Integers below \<open>2 ^ 53\<close> are doubles: converting them is exact.\<close>

lemma fl_of_nat:
  assumes "n < 2 ^ 53"
  shows "fl (of_nat n) = of_nat n"
proof (cases "n = 0")
  case True
  then show ?thesis by (simp add: fl_zero)
next
  case False
  then have pos: "0 < n" by simp
  define j where "j = nat (53 - bitlen (int n))"
  have b: "bitlen (int n) \<le> 53" "1 \<le> bitlen (int n)"
    using bitlen_le_53 [OF pos assms] by simp_all
  have one: "(1::rat) \<le> of_nat n" using pos by simp
  have e: "ilog2 (of_nat n) - 52 = - int j"
    using b one by (simp add: ilog2_def j_def)
  have p: "(2::rat) powi (- int j) = inverse (2 ^ j)"
    by (simp add: power_int_minus)
  have q: "(of_nat n :: rat) / inverse (2 ^ j) = of_int (int n * 2 ^ j)"
    by (simp add: field_simps)
  have r: "rat_of_int (int n * 2 ^ j) * inverse (2 ^ j) = of_nat n"
    by simp
  have nz: "(of_nat n :: rat) \<noteq> 0" "\<not> (of_nat n :: rat) < 0" using pos by simp_all
  show ?thesis
    unfolding fl_def Let_def
    using nz by (simp add: e p q rne_of_int r del: of_int_mult of_int_power)
qed

text \<open>Rounding keeps the sign, and rounds nothing but \<open>0\<close> to \<open>0\<close>.\<close>

lemma rne_ge_floor: "\<lfloor>x\<rfloor> \<le> rne x"
  by (simp add: rne_def Let_def)

lemma ilog2_lower:
  assumes "0 < a"
  shows "2 powi (ilog2 a) \<le> a"
proof (cases "1 \<le> a")
  case True
  then have pos: "0 < \<lfloor>a\<rfloor>" by simp
  define b where "b = bitlen \<lfloor>a\<rfloor>"
  have b1: "1 \<le> b" using pos by (simp add: b_def bitlen_alt_def)
  have "2 ^ nat (b - 1) \<le> \<lfloor>a\<rfloor>"
    using bitlen_bounds [OF pos] by (simp add: b_def)
  then have "rat_of_int (2 ^ nat (b - 1)) \<le> of_int \<lfloor>a\<rfloor>"
    by (simp only: of_int_le_iff)
  also have "\<dots> \<le> a" by simp
  finally have "(2::rat) ^ nat (b - 1) \<le> a" by simp
  moreover have "(2::rat) powi (b - 1) = 2 ^ nat (b - 1)"
    using b1 by (simp add: power_int_def)
  ultimately show ?thesis
    using True by (simp add: ilog2_def b_def)
next
  case False
  then have lt: "a < 1" by simp
  define m where "m = \<lceil>1 / a\<rceil> - 1"
  have "1 < 1 / a" using assms lt by simp
  then have "1 < \<lceil>1 / a\<rceil>" by (simp add: less_ceiling_iff)
  then have pos: "0 < m" by (simp add: m_def)
  have "m < 2 ^ nat (bitlen m)"
    using bitlen_bounds [OF pos] by simp
  then have "m + 1 \<le> 2 ^ nat (bitlen m)" by simp
  then have "rat_of_int (m + 1) \<le> of_int (2 ^ nat (bitlen m))"
    by (simp only: of_int_le_iff)
  moreover have "1 / a \<le> of_int (m + 1)"
    by (simp add: m_def)
  ultimately have "1 / a \<le> 2 ^ nat (bitlen m)" by simp
  then have "1 \<le> a * 2 ^ nat (bitlen m)"
    using assms by (simp add: field_simps)
  then have "inverse (2 ^ nat (bitlen m)) \<le> a"
    by (simp add: field_simps)
  moreover have "(2::rat) powi (bitlen m) = 2 ^ nat (bitlen m)"
    using bitlen_nonneg [of m] by (simp add: power_int_def)
  then have "(2::rat) powi (- bitlen m) = inverse (2 ^ nat (bitlen m))"
    by (simp only: power_int_minus)
  ultimately show ?thesis
    using False by (simp add: ilog2_def m_def)
qed

lemma fl_pos:
  assumes "0 < x"
  shows "0 < fl x"
proof -
  define e where "e = ilog2 x - 52"
  have p: "(0::rat) < 2 powi e" by simp
  have "(2::rat) powi e = 2 powi (ilog2 x) * 2 powi (- 52)"
    by (simp add: e_def power_int_diff power_int_minus field_simps)
  also have "\<dots> \<le> 2 powi (ilog2 x)"
  proof (rule mult_left_le)
    show "(2::rat) powi (- 52) \<le> 1" by (simp add: power_int_minus)
    show "(0::rat) \<le> 2 powi (ilog2 x)" by simp
  qed
  also have "\<dots> \<le> x" using ilog2_lower [OF assms] .
  finally have "1 \<le> x / 2 powi e"
    using p by (simp add: field_simps)
  then have "1 \<le> \<lfloor>x / 2 powi e\<rfloor>" by simp
  with rne_ge_floor [of "x / 2 powi e"] have "0 < rne (x / 2 powi e)" by linarith
  then have "0 < rat_of_int (rne (x / 2 powi e)) * 2 powi e"
    using p by simp
  then show ?thesis
    using assms by (simp add: fl_def Let_def e_def)
qed

lemma fl_neg:
  assumes "x < 0"
  shows "fl x < 0"
proof -
  have "0 < fl (- x)" using assms by (simp add: fl_pos)
  moreover have "fl x = - fl (- x)"
    using assms by (simp add: fl_def Let_def)
  ultimately show ?thesis by simp
qed

lemma fl_sign: "0 < fl x \<longleftrightarrow> 0 < x" "fl x < 0 \<longleftrightarrow> x < 0" "fl x = 0 \<longleftrightarrow> x = 0"
  using fl_pos [of x] fl_neg [of x]
  by (cases "x = 0"; cases "0 < x"; force simp: fl_def)+

lemma fsub_sign:
  "0 < fsub a b \<longleftrightarrow> b < a" "fsub a b < 0 \<longleftrightarrow> a < b" "fsub a b = 0 \<longleftrightarrow> a = b"
  by (simp_all add: fsub_def fl_sign)

lemma float_examples:
  "fl (1 / 10) = 3602879701896397 / 36028797018963968"
  "fl (2 ^ 53 + 1) = 2 ^ 53"
  "fl (2 ^ 53 + 3) = 2 ^ 53 + 4"
  "fsub 100 80 = 20"
  "fsub 80 100 = - 20"
  by code_simp+

section \<open>Reward attribution\<close>

lemma total_points_pass_entries:
  "total_points_pass (points_entries table) acc =
     Inr (foldl fadd acc (map (\<lambda>row. fl (of_nat (snd row))) table))"
  by (induction table arbitrary: acc)
     (simp_all add: points_entries_def and_then_def py_float_def)

lemma validator_points_pass_entries:
  "validator_points_pass (points_entries table) v = Inr (spec_validator_points table v)"
  by (induction table)
     (simp_all add: points_entries_def spec_validator_points_def py_float_def)

text \<open>While the running total stays below \<open>2 ^ 53\<close> the float sum of the first pass is
  the exact sum of the points.\<close>

lemma foldl_fadd_exact:
  "acc + sum_list (map snd table) < 2 ^ 53 \<Longrightarrow>
   foldl fadd (of_nat acc) (map (\<lambda>row. fl (of_nat (snd row))) table)
     = of_nat (acc + sum_list (map snd table))"
proof (induction table arbitrary: acc)
  case Nil
  then show ?case by simp
next
  case (Cons row table)
  have small: "snd row < 2 ^ 53" "acc + snd row < 2 ^ 53"
    using Cons.prems by simp_all
  have step: "fadd (of_nat acc) (fl (of_nat (snd row))) = of_nat (acc + snd row)"
    using fl_of_nat [OF small(2)] by (simp add: fadd_def fl_of_nat [OF small(1)])
  have "acc + snd row + sum_list (map snd table) < 2 ^ 53"
    using Cons.prems by (simp add: add.assoc)
  from Cons.IH [OF this] show ?case
    by (simp add: step add.assoc)
qed

lemma spec_total_points_exact:
  "sum_list (map snd table) < 2 ^ 53 \<Longrightarrow>
   spec_total_points table = of_nat (sum_list (map snd table))"
  using foldl_fadd_exact [of 0 table] by (simp add: spec_total_points_def)

lemma spec_validator_points_exact:
  "sum_list (map snd table) < 2 ^ 53 \<Longrightarrow>
   spec_validator_points table v =
     (case find (\<lambda>row. fst row = v) table of None \<Rightarrow> 0 | Some row \<Rightarrow> of_nat (snd row))"
proof (induction table)
  case Nil
  then show ?case by (simp add: spec_validator_points_def)
next
  case (Cons row table)
  then have "snd row < 2 ^ 53" "sum_list (map snd table) < 2 ^ 53" by simp_all
  with Cons.IH show ?case
    by (simp add: spec_validator_points_def fl_of_nat)
qed

lemma spec_validator_points_zero:
  "sum_list (map snd table) = 0 \<Longrightarrow> spec_validator_points table v = 0"
  by (induction table) (auto simp: spec_validator_points_def fl_zero)

lemma total_points_pass_no_zero_division:
  "total_points_pass es acc \<noteq> Inl ZeroDivisionError"
  by (induction es acc rule: total_points_pass.induct)
     (auto simp: and_then_def py_float_def split: scalar.splits)

lemma validator_points_pass_no_zero_division:
  "validator_points_pass es v \<noteq> Inl ZeroDivisionError"
  by (induction es v rule: validator_points_pass.induct)
     (auto simp: py_float_def split: scalar.splits)

lemma guarded_division: "py_truediv a (guard_total b) = Inr (fdiv a (guard_total b))"
  by (simp add: py_truediv_def guard_total_def)

lemma reward_points_body_no_zero_division:
  "reward_points_body sub v era rp \<noteq> Inl ZeroDivisionError"
proof (cases rp)
  case NotAList
  then show ?thesis by (simp add: reward_points_body_def)
next
  case (PointsList es)
  show ?thesis
    using total_points_pass_no_zero_division [of es 0]
      validator_points_pass_no_zero_division [of es v]
    by (auto simp: PointsList reward_points_body_def and_then_def guarded_division Let_def
          split: sum.splits reply.splits)
qed

text \<open>An exception of the reward lookup stays inside \<open>get_era_rewards\<close>, which answers
  \<open>0\<close>.\<close>

lemma get_era_rewards_absorbs:
  "eras_reward_points sub era = Raises \<Longrightarrow> get_era_rewards sub v era = 0"
  "eras_reward_points sub era = Value rp \<Longrightarrow>
     reward_points_body sub v era rp = Inl e \<Longrightarrow> get_era_rewards sub v era = 0"
  by (simp_all add: get_era_rewards_def)

text \<open>
  \<^bold>\<open>Claim C3.\<close> When the points table and the reward pool of the era are readable,
  \<open>get_era_rewards\<close> returns \<open>(validator_points / total_points) * (raw / 1e18)\<close> in float
  arithmetic, where \<open>validator_points\<close> is the points of the first entry with the
  validator's address (\<open>0\<close> without one), \<open>total_points\<close> the sum of the points of all
  entries, here not zero, and \<open>raw\<close> the pool as the chain stores it. (By
  \<open>spec_total_points_exact\<close> and \<open>spec_validator_points_exact\<close> both are the exact
  numbers of points while the sum stays below \<open>2 ^ 53\<close>.) The witness is the era with
  30 of 100 points and a pool of 1000 CAPS: the reward is 300.
\<close>

theorem get_era_rewards_formula:
  assumes "eras_reward_points sub era = Value (PointsList (points_entries table))"
    and "eras_validator_reward sub era = Value raw"
    and "spec_total_points table \<noteq> 0"
  shows "get_era_rewards sub v era =
     fmul (fdiv (spec_validator_points table v) (spec_total_points table))
          (fdiv (fl (of_int raw)) e18)"
  using assms
  by (simp add: get_era_rewards_def reward_points_body_def and_then_def
        total_points_pass_entries validator_points_pass_entries spec_total_points_def
        guard_total_def py_truediv_def Let_def fl_zero fdiv_zero_left fmul_zero_right)

theorem get_era_rewards_formula_witness:
  "eras_reward_points chain_points 7 =
     Value (PointsList (points_entries [(''v1'', 30), (''v2'', 70)]))
   \<and> eras_validator_reward chain_points 7 = Value (1000 * 10 ^ 18)
   \<and> spec_validator_points [(''v1'', 30), (''v2'', 70)] ''v1'' = 30
   \<and> spec_total_points [(''v1'', 30), (''v2'', 70)] = 100
   \<and> get_era_rewards chain_points ''v1'' 7 = 300"
proof -
  have points: "eras_reward_points chain_points 7 =
      Value (PointsList (points_entries [(''v1'', 30), (''v2'', 70)]))"
    by (simp add: chain_points_def)
  have pool: "eras_validator_reward chain_points 7 = Value (1000 * 10 ^ 18)"
    by (simp add: chain_points_def)
  have vp: "spec_validator_points [(''v1'', 30), (''v2'', 70)] ''v1'' = 30"
    by code_simp
  have tp: "spec_total_points [(''v1'', 30), (''v2'', 70)] = 100"
    by code_simp
  have nonzero: "spec_total_points [(''v1'', 30), (''v2'', 70)] \<noteq> 0"
    by (simp add: tp)
  have product: "fmul (fdiv 30 100) (fdiv (fl (of_int (1000 * 10 ^ 18))) e18) = 300"
    by code_simp
  have "get_era_rewards chain_points ''v1'' 7 = 300"
    using get_era_rewards_formula [OF points pool nonzero, of "''v1''"]
    by (simp only: vp tp product)
  with points pool vp tp show ?thesis by simp
qed

text \<open>
  \<^bold>\<open>Claim C4.\<close> When the points of the era's table sum to zero, the first pass leaves
  \<open>total_points = 0\<close>, the guard replaces it by \<open>1\<close>, the reward is \<open>0\<close> whatever the pool
  query answers, and the \<^verbatim>\<open>try\<close> block never raises \<open>ZeroDivisionError\<close>.
\<close>

theorem get_era_rewards_zero_total:
  assumes "eras_reward_points sub era = Value (PointsList (points_entries table))"
    and "sum_list (map snd table) = 0"
  shows "total_points_pass (points_entries table) 0 = Inr 0
       \<and> guard_total 0 = 1
       \<and> get_era_rewards sub v era = 0
       \<and> reward_points_body sub v era (PointsList (points_entries table))
           \<noteq> Inl ZeroDivisionError"
proof -
  have tp: "total_points_pass (points_entries table) 0 = Inr 0"
    using spec_total_points_exact [of table] assms(2)
    by (simp add: total_points_pass_entries spec_total_points_def)
  have vp: "validator_points_pass (points_entries table) v = Inr 0"
    using assms(2) by (simp add: validator_points_pass_entries spec_validator_points_zero)
  have "get_era_rewards sub v era = 0"
    using assms(1)
    by (simp add: get_era_rewards_def reward_points_body_def and_then_def tp vp
          guarded_division fdiv_zero_left fmul_zero_left Let_def split: reply.split)
  then show ?thesis
    using tp reward_points_body_no_zero_division by (simp add: guard_total_def)
qed

theorem get_era_rewards_zero_total_witness:
  "eras_reward_points chain_zero_points 7 =
     Value (PointsList (points_entries [(''v1'', 0), (''v2'', 0)]))
   \<and> sum_list (map snd [(''v1'', 0 :: nat), (''v2'', 0)]) = 0
   \<and> get_era_rewards chain_zero_points ''v1'' 7 = 0
   \<and> reward_points_body chain_zero_points ''v1'' 7
        (PointsList (points_entries [(''v1'', 0), (''v2'', 0)])) = Inr (Some 0)"
proof -
  have points: "eras_reward_points chain_zero_points 7 =
      Value (PointsList (points_entries [(''v1'', 0), (''v2'', 0)]))"
    by (simp add: chain_zero_points_def)
  have zero: "sum_list (map snd [(''v1'', 0 :: nat), (''v2'', 0)]) = 0"
    by simp
  have body: "reward_points_body chain_zero_points ''v1'' 7
      (PointsList (points_entries [(''v1'', 0), (''v2'', 0)])) = Inr (Some 0)"
    by code_simp
  from get_era_rewards_zero_total [OF points zero, of "''v1''"] points zero body
  show ?thesis by simp
qed

section \<open>Stake movements and metric emission\<close>

text \<open>
  \<^bold>\<open>Claim C2.\<close> \<open>track_stake_movements\<close> returns \<open>(0, 0)\<close> when there is no previous
  stake; otherwise, with \<open>diff\<close> the float difference of the current and the previous
  stake, \<open>(diff, 0)\<close> when \<open>diff\<close> is positive, \<open>(0, \<bar>diff\<bar>)\<close> when it is negative and
  \<open>(0, 0)\<close> when it is zero. One component of the pair is always zero.
\<close>

theorem track_stake_movements_result:
  "snd (track_stake_movements st validator name current_stake previous_stake) =
     (case previous_stake of
        None \<Rightarrow> (0, 0)
      | Some previous \<Rightarrow>
          (let diff = fsub current_stake previous in
           if 0 < diff then (diff, 0)
           else if diff < 0 then (0, \<bar>diff\<bar>)
           else (0, 0)))
   \<and> (fst (snd (track_stake_movements st validator name current_stake previous_stake)) = 0
      \<or> snd (snd (track_stake_movements st validator name current_stake previous_stake)) = 0)"
  by (simp add: track_stake_movements_def Let_def split: option.split)

lemma track_stake_movements_by_comparison:
  "snd (track_stake_movements st validator name current_stake (Some previous)) =
     (if previous < current_stake then (fsub current_stake previous, 0)
      else if current_stake < previous then (0, \<bar>fsub current_stake previous\<bar>)
      else (0, 0))"
  by (simp add: track_stake_movements_def Let_def fsub_sign)

theorem track_stake_movements_result_witness:
  "snd (track_stake_movements exporter_0 ''v1'' ''Bob'' 100 (Some 80)) = (20, 0)
   \<and> snd (track_stake_movements exporter_0 ''v1'' ''Bob'' 80 (Some 100)) = (0, 20)
   \<and> snd (track_stake_movements exporter_0 ''v1'' ''Bob'' 100 (Some 100)) = (0, 0)
   \<and> snd (track_stake_movements exporter_0 ''v1'' ''Bob'' 100 None) = (0, 0)"
  using track_stake_movements_result [of exporter_0 "''v1''" "''Bob''" 100 "Some 80"]
    track_stake_movements_result [of exporter_0 "''v1''" "''Bob''" 80 "Some 100"]
    track_stake_movements_result [of exporter_0 "''v1''" "''Bob''" 100 "Some 100"]
    track_stake_movements_result [of exporter_0 "''v1''" "''Bob''" 100 None]
  by (simp add: float_examples fsub_self)

text \<open>
  \<^bold>\<open>Claim C10.\<close> Without a previous stake, or with a current stake equal to the previous
  one, \<open>track_stake_movements\<close> leaves every gauge as it was, so an earlier movement
  stays published. Otherwise the difference is not zero and it writes one gauge only:
  \<open>VALIDATOR_CAPS_IN\<close> when the stake grew, \<open>VALIDATOR_CAPS_OUT\<close> when it shrank.
\<close>

theorem track_stake_movements_writes:
  "fst (track_stake_movements st validator name current_stake previous_stake) =
     (case previous_stake of
        None \<Rightarrow> st
      | Some previous \<Rightarrow>
          (if current_stake = previous then st
           else if previous < current_stake then
             st\<lparr>VALIDATOR_CAPS_IN := (VALIDATOR_CAPS_IN st)
                  ((validator, name, ''nomination'') \<mapsto> fsub current_stake previous)\<rparr>
           else
             st\<lparr>VALIDATOR_CAPS_OUT := (VALIDATOR_CAPS_OUT st)
                  ((validator, name, ''unstake'') \<mapsto> \<bar>fsub current_stake previous\<bar>)\<rparr>))"
  by (auto simp: track_stake_movements_def Let_def fsub_sign split: option.split)

theorem track_stake_movements_writes_witness:
  "fst (track_stake_movements exporter_0 ''v1'' ''Bob'' 100 None) = exporter_0
   \<and> fst (track_stake_movements exporter_0 ''v1'' ''Bob'' 100 (Some 100)) = exporter_0
   \<and> VALIDATOR_CAPS_IN (fst (track_stake_movements exporter_0 ''v1'' ''Bob'' 100 (Some 80)))
        (''v1'', ''Bob'', ''nomination'') = Some 20
   \<and> VALIDATOR_CAPS_OUT (fst (track_stake_movements exporter_0 ''v1'' ''Bob'' 100 (Some 80)))
        = VALIDATOR_CAPS_OUT exporter_0"
  using track_stake_movements_writes [of exporter_0 "''v1''" "''Bob''" 100 None]
    track_stake_movements_writes [of exporter_0 "''v1''" "''Bob''" 100 "Some 100"]
    track_stake_movements_writes [of exporter_0 "''v1''" "''Bob''" 100 "Some 80"]
  by (simp add: float_examples)

lemma track_frame:
  "VALIDATOR_SELF_STAKE (fst (track_stake_movements st v n c p)) = VALIDATOR_SELF_STAKE st"
  "VALIDATOR_NOMINATIONS (fst (track_stake_movements st v n c p)) = VALIDATOR_NOMINATIONS st"
  "VALIDATOR_TOTAL_STAKE (fst (track_stake_movements st v n c p)) = VALIDATOR_TOTAL_STAKE st"
  "VALIDATOR_NOMINATOR_COUNT (fst (track_stake_movements st v n c p)) =
     VALIDATOR_NOMINATOR_COUNT st"
  "VALIDATOR_REWARDS (fst (track_stake_movements st v n c p)) = VALIDATOR_REWARDS st"
  "previous_stakes (fst (track_stake_movements st v n c p)) = previous_stakes st"
  by (simp_all add: track_stake_movements_def Let_def split: option.split)

text \<open>What one pass of the loop of \<open>update_metrics\<close> does to the rewards gauge and to
  the four gauges labelled with the status.\<close>

lemma emit_validator_rewards:
  "VALIDATOR_REWARDS (emit_validator active ids era item st) =
     (if 0 < rewards (snd item)
      then (VALIDATOR_REWARDS st)
             ((fst item, validator_name ids (fst item), str_nat era) \<mapsto> rewards (snd item))
      else VALIDATOR_REWARDS st)"
  by (simp add: emit_validator_def Let_def track_frame)

lemma emit_validator_status_gauges:
  "VALIDATOR_SELF_STAKE (emit_validator active ids era item st) =
     (VALIDATOR_SELF_STAKE st)
       ((fst item, validator_name ids (fst item), status_of active (fst item))
          \<mapsto> self_stake (snd item))"
  "VALIDATOR_NOMINATIONS (emit_validator active ids era item st) =
     (VALIDATOR_NOMINATIONS st)
       ((fst item, validator_name ids (fst item), status_of active (fst item))
          \<mapsto> nominations (snd item))"
  "VALIDATOR_TOTAL_STAKE (emit_validator active ids era item st) =
     (VALIDATOR_TOTAL_STAKE st)
       ((fst item, validator_name ids (fst item), status_of active (fst item))
          \<mapsto> total_stake (snd item))"
  "VALIDATOR_NOMINATOR_COUNT (emit_validator active ids era item st) =
     (VALIDATOR_NOMINATOR_COUNT st)
       ((fst item, validator_name ids (fst item), status_of active (fst item))
          \<mapsto> fl (of_nat (nominator_count (snd item))))"
  by (simp_all add: emit_validator_def Let_def track_frame status_of_def)

lemma str_nat_examples: "str_nat 7 = ''7''" "str_nat 1024 = ''1024''"
  by code_simp+

text \<open>The loop writes no gauge under a label triple of a validator that is not a key of
  the snapshot map, and leaves \<open>previous_stakes\<close> alone.\<close>

lemma emit_validator_frame:
  "v \<noteq> fst item \<Longrightarrow>
   gauges_at (emit_validator active ids era item st) (v, n, x) = gauges_at st (v, n, x)"
  by (simp add: emit_validator_def track_stake_movements_def gauges_at_def Let_def
        split: option.split)

lemma emit_loop_frame:
  "v \<notin> fst ` set items \<Longrightarrow>
   gauges_at (emit_loop active ids era items st) (v, n, x) = gauges_at st (v, n, x)"
  by (induction items arbitrary: st) (simp_all add: emit_validator_frame)

lemma emit_validator_previous:
  "previous_stakes (emit_validator active ids era item st) = previous_stakes st"
  by (simp add: emit_validator_def Let_def track_frame)

lemma emit_loop_previous:
  "previous_stakes (emit_loop active ids era items st) = previous_stakes st"
  by (induction items arbitrary: st) (simp_all add: emit_validator_previous)

section \<open>Snapshot building\<close>

lemma map_of_stakes_loop:
  "map_of (stakes_loop sub era vs st) w =
     (if w \<in> set vs then stored sub era w (map_of st w) else map_of st w)"
proof (induction vs arbitrary: st)
  case Nil
  show ?case by simp
next
  case (Cons v vs)
  show ?case
    by (auto simp: Cons.IH update_conv' stored_def split: sum.split option.split)
qed

lemma get_validator_stakes_Value:
  "active_era sub = Value i \<Longrightarrow>
     get_validator_stakes sub vs = Inr (stakes_loop sub i vs [])"
  by (simp add: get_validator_stakes_def era_index_of_def and_then_def)

lemma read_exposure_raises:
  "read_balances sub era v = Inl e \<Longrightarrow> read_exposure sub era v = Inl e"
  by (simp add: read_exposure_def and_then_def)

text \<open>Only the exposure query and the two balance conversions can make the
  \<^verbatim>\<open>try\<close> block of the loop raise: the reward lookup cannot.\<close>

lemma read_exposure_raises_iff:
  "read_exposure sub era v = Inl e \<longleftrightarrow> read_balances sub era v = Inl e"
  by (auto simp: read_exposure_def and_then_def Let_def split: sum.splits option.splits)

lemma read_exposure_nominations:
  "read_exposure sub era v = Inr (Some s) \<Longrightarrow>
     nominations s = fsub (total_stake s) (self_stake s)"
  by (auto simp: read_exposure_def read_balances_def and_then_def Let_def
        split: reply.splits sum.splits option.splits)

lemma read_exposure_Falsy:
  "eras_stakers sub era v = Falsy \<Longrightarrow> read_exposure sub era v = Inr None"
  by (simp add: read_exposure_def read_balances_def and_then_def)

text \<open>
  \<^bold>\<open>Claim C1\<close>, as the code has it. When the active era is readable and the exposure
  query or a balance conversion of validator \<open>v\<close> raises, \<open>get_validator_stakes\<close> raises
  nothing and returns a map in which \<open>v\<close>, if listed, has the all-zero snapshot and every
  other validator has the entry it has when \<open>v\<close> is taken out of the list. An exception
  of the reward lookup does not reach this handler: \<open>get_era_rewards\<close> catches it and
  answers \<open>0\<close>, and the validator keeps its stake fields, as the counterexample shows.
\<close>

theorem get_validator_stakes_isolation:
  assumes era: "active_era sub = Value era_index"
    and raises: "read_balances sub era_index v = Inl e"
  shows "\<exists>st st'. get_validator_stakes sub vs = Inr st
           \<and> get_validator_stakes sub (removeAll v vs) = Inr st'
           \<and> (v \<in> set vs \<longrightarrow> map_of st v = Some zero_snapshot)
           \<and> (\<forall>w. w \<noteq> v \<longrightarrow> map_of st w = map_of st' w)"
  using read_exposure_raises [OF raises]
  by (simp add: get_validator_stakes_Value [OF era] map_of_stakes_loop stored_def)

theorem get_validator_stakes_isolation_witness:
  "active_era chain_exposure_fails = Value 7
   \<and> read_balances chain_exposure_fails 7 ''v1'' = Inl QueryError
   \<and> (\<exists>st st'. get_validator_stakes chain_exposure_fails [''v1'', ''v2''] = Inr st
         \<and> get_validator_stakes chain_exposure_fails [''v2''] = Inr st'
         \<and> map_of st ''v1'' = Some zero_snapshot
         \<and> map_of st ''v2'' = map_of st' ''v2'')"
proof -
  have era: "active_era chain_exposure_fails = Value 7"
    by (simp add: chain_exposure_fails_def idle_chain_def)
  have raises: "read_balances chain_exposure_fails 7 ''v1'' = Inl QueryError"
    by (simp add: chain_exposure_fails_def read_balances_def)
  from get_validator_stakes_isolation [OF era raises, of "[''v1'', ''v2'']"]
  obtain st st' where
    "get_validator_stakes chain_exposure_fails [''v1'', ''v2''] = Inr st"
    "get_validator_stakes chain_exposure_fails [''v2''] = Inr st'"
    "map_of st ''v1'' = Some zero_snapshot"
    "map_of st ''v2'' = map_of st' ''v2''"
    by auto
  with era raises show ?thesis by blast
qed

theorem reward_failure_counterexample:
  "eras_reward_points chain_reward_fails 7 = Raises
   \<and> get_validator_stakes chain_reward_fails [''v1''] =
       Inr [(''v1'', \<lparr>self_stake = 1, total_stake = 3, nominations = 2,
                      nominator_count = 1, rewards = 0, slashes = 0\<rparr>)]
   \<and> get_validator_stakes chain_reward_fails [''v1''] \<noteq> Inr [(''v1'', zero_snapshot)]"
  by code_simp

text \<open>
  \<^bold>\<open>Claim C6\<close>, as the code has it. In every snapshot of the map that
  \<open>get_validator_stakes\<close> returns, populated or zeroed, \<open>nominations\<close> is the float
  difference of \<open>total_stake\<close> and \<open>self_stake\<close>. Adding \<open>self_stake\<close> back need not give
  \<open>total_stake\<close>: with 0.2 CAPS of own stake in a total of 0.9 CAPS the sum is
  0.8999999999999999, in float addition and in exact addition alike.
\<close>

theorem nominations_by_subtraction:
  assumes "get_validator_stakes sub vs = Inr st" and "map_of st v = Some s"
  shows "nominations s = fsub (total_stake s) (self_stake s)"
proof -
  obtain era where era: "era_index_of sub = Inr era"
    using assms(1)
    by (cases "era_index_of sub") (simp_all add: get_validator_stakes_def and_then_def)
  then have st: "st = stakes_loop sub era vs []"
    using assms(1) by (simp add: get_validator_stakes_def and_then_def)
  have "s = zero_snapshot \<or> read_exposure sub era v = Inr (Some s)"
    using assms(2) unfolding st map_of_stakes_loop stored_def
    by (auto split: if_splits sum.splits option.splits)
  then show ?thesis
  proof
    assume "s = zero_snapshot"
    then show ?thesis by (simp add: zero_snapshot_def fsub_self)
  next
    assume "read_exposure sub era v = Inr (Some s)"
    then show ?thesis by (rule read_exposure_nominations)
  qed
qed

theorem nominations_by_subtraction_witness:
  "get_validator_stakes chain_exposure_fails [''v1'', ''v2''] =
     Inr [(''v1'', zero_snapshot),
          (''v2'', \<lparr>self_stake = 1, total_stake = 3, nominations = 2,
                    nominator_count = 1, rewards = 0, slashes = 0\<rparr>)]
   \<and> fsub 0 0 = 0 \<and> fsub 3 1 = 2"
proof -
  have stakes: "get_validator_stakes chain_exposure_fails [''v1'', ''v2''] =
     Inr [(''v1'', zero_snapshot),
          (''v2'', \<lparr>self_stake = 1, total_stake = 3, nominations = 2,
                    nominator_count = 1, rewards = 0, slashes = 0\<rparr>)]"
    by code_simp
  have "fsub 0 0 = 0"
    using nominations_by_subtraction [OF stakes, of "''v1''" zero_snapshot]
    by (simp add: zero_snapshot_def)
  moreover have "fsub 3 1 = 2"
    using nominations_by_subtraction [OF stakes, of "''v2''"]
    by simp
  ultimately show ?thesis using stakes by simp
qed

theorem total_stake_rounding_counterexample:
  "get_validator_stakes chain_rounding [''v1''] =
     Inr [(''v1'', \<lparr>self_stake = 3602879701896397 / 18014398509481984,
                    total_stake = 8106479329266893 / 9007199254740992,
                    nominations = 3152519739159347 / 4503599627370496,
                    nominator_count = 1, rewards = 0, slashes = 0\<rparr>)]
   \<and> fadd (3602879701896397 / 18014398509481984) (3152519739159347 / 4503599627370496)
       \<noteq> 8106479329266893 / 9007199254740992
   \<and> (3602879701896397 / 18014398509481984 + 3152519739159347 / 4503599627370496 :: rat)
       \<noteq> 8106479329266893 / 9007199254740992"
  by code_simp

text \<open>
  \<^bold>\<open>Claim C5.\<close> When reading the active era index raises, \<open>get_validator_stakes\<close>
  raises the same exception, \<open>update_metrics\<close> raises to its caller, and the gauges and
  \<open>previous_stakes\<close> are what they were before the call: \<open>previous_stakes\<close> is assigned
  after the loop over the validators only.
\<close>

theorem era_failure_keeps_previous_stakes:
  assumes "era_index_of sub = Inl e"
  shows "get_validator_stakes sub vs = Inl e
         \<and> (\<exists>e'. update_metrics sub st = (Some e', st))"
  using assms
  by (simp add: get_validator_stakes_def update_metrics_def and_then_def
        split: sum.split)

theorem era_failure_keeps_previous_stakes_witness:
  "era_index_of chain_era_fails = Inl QueryError
   \<and> get_validator_stakes chain_era_fails [''v1'', ''v2''] = Inl QueryError
   \<and> update_metrics chain_era_fails exporter_0 = (Some QueryError, exporter_0)
   \<and> previous_stakes (snd (update_metrics chain_era_fails exporter_0)) =
        [(''v1'', zero_snapshot\<lparr>total_stake := 80\<rparr>)]"
proof -
  have era: "era_index_of chain_era_fails = Inl QueryError"
    by (simp add: era_index_of_def chain_era_fails_def)
  from era_failure_keeps_previous_stakes [OF era, of "[''v1'', ''v2'']" exporter_0]
  obtain e' where stakes: "get_validator_stakes chain_era_fails [''v1'', ''v2''] = Inl QueryError"
    and update: "update_metrics chain_era_fails exporter_0 = (Some e', exporter_0)"
    by auto
  have lists: "listed (staking_validators chain_era_fails) = Inr [''v1'', ''v2'']"
    "listed (session_validators chain_era_fails) = Inr [''v1'']"
    by (simp_all add: listed_def chain_era_fails_def idle_chain_def)
  have "fst (update_metrics chain_era_fails exporter_0) = Some QueryError"
    by (simp add: update_metrics_def lists stakes and_then_def)
  with update have "e' = QueryError" by simp
  with era stakes update show ?thesis by (simp add: exporter_0_def)
qed

lemma update_metrics_success:
  "fst (update_metrics sub st) = None \<Longrightarrow>
   \<exists>validators. listed (staking_validators sub) = Inr validators
     \<and> get_validator_stakes sub validators = Inr (previous_stakes (snd (update_metrics sub st)))"
  by (auto simp: update_metrics_def and_then_def Let_def split: sum.splits)

lemma update_metrics_gauges:
  "\<exists>items active ids era. snd (update_metrics sub st) = st
     \<or> (get_validator_stakes sub items = Inr (previous_stakes (snd (update_metrics sub st)))
        \<and> snd (update_metrics sub st) =
            (emit_loop active ids era (previous_stakes (snd (update_metrics sub st))) st)
              \<lparr>previous_stakes := previous_stakes (snd (update_metrics sub st))\<rparr>)"
  by (auto simp: update_metrics_def and_then_def Let_def split: sum.splits)

text \<open>
  \<^bold>\<open>Claim C9.\<close> When the exposure query of validator \<open>v\<close> returns a falsy result,
  the map that \<open>get_validator_stakes\<close> returns has no entry for \<open>v\<close>, neither populated
  nor zeroed. So \<open>update_metrics\<close> writes no gauge under any label triple of \<open>v\<close>, and
  after a cycle that completes \<open>previous_stakes\<close> has no entry for \<open>v\<close>.
\<close>

theorem falsy_exposure_absent:
  assumes era: "active_era sub = Value era_index"
    and falsy: "eras_stakers sub era_index v = Falsy"
  shows "(\<exists>st. get_validator_stakes sub vs = Inr st \<and> map_of st v = None)
       \<and> gauges_at (snd (update_metrics sub ex)) (v, name, label) = gauges_at ex (v, name, label)
       \<and> (fst (update_metrics sub ex) = None \<longrightarrow>
            map_of (previous_stakes (snd (update_metrics sub ex))) v = None)"
proof -
  have absent: "map_of st v = None" if "get_validator_stakes sub ws = Inr st" for ws st
    using that
    by (auto simp: get_validator_stakes_Value [OF era] map_of_stakes_loop stored_def
          read_exposure_Falsy [OF falsy])
  have first: "\<exists>st. get_validator_stakes sub vs = Inr st \<and> map_of st v = None"
    using absent [of vs] by (simp add: get_validator_stakes_Value [OF era])
  have third: "fst (update_metrics sub ex) = None \<longrightarrow>
      map_of (previous_stakes (snd (update_metrics sub ex))) v = None"
    using update_metrics_success [of sub ex] absent by blast
  obtain items active ids era where
    "snd (update_metrics sub ex) = ex
     \<or> (get_validator_stakes sub items = Inr (previous_stakes (snd (update_metrics sub ex)))
        \<and> snd (update_metrics sub ex) =
            (emit_loop active ids era (previous_stakes (snd (update_metrics sub ex))) ex)
              \<lparr>previous_stakes := previous_stakes (snd (update_metrics sub ex))\<rparr>)"
    using update_metrics_gauges [of sub ex] by blast
  then have second:
    "gauges_at (snd (update_metrics sub ex)) (v, name, label) = gauges_at ex (v, name, label)"
  proof
    assume "snd (update_metrics sub ex) = ex"
    then show ?thesis by simp
  next
    assume run: "get_validator_stakes sub items = Inr (previous_stakes (snd (update_metrics sub ex)))
        \<and> snd (update_metrics sub ex) =
            (emit_loop active ids era (previous_stakes (snd (update_metrics sub ex))) ex)
              \<lparr>previous_stakes := previous_stakes (snd (update_metrics sub ex))\<rparr>"
    then have "map_of (previous_stakes (snd (update_metrics sub ex))) v = None"
      using absent by blast
    then have "v \<notin> fst ` set (previous_stakes (snd (update_metrics sub ex)))"
      by (simp add: map_of_eq_None_iff)
    from emit_loop_frame [OF this, of active ids era ex name label]
    have "gauges_at (emit_loop active ids era (previous_stakes (snd (update_metrics sub ex))) ex)
            (v, name, label) = gauges_at ex (v, name, label)" .
    moreover have "gauges_at (snd (update_metrics sub ex)) (v, name, label) =
        gauges_at (emit_loop active ids era (previous_stakes (snd (update_metrics sub ex))) ex)
            (v, name, label)"
      by (subst conjunct2 [OF run]) (simp add: gauges_at_def)
    ultimately show ?thesis by simp
  qed
  from first second third show ?thesis by blast
qed

theorem falsy_exposure_absent_witness:
  "active_era chain_exposure_falsy = Value 7
   \<and> eras_stakers chain_exposure_falsy 7 ''v1'' = Falsy
   \<and> get_validator_stakes chain_exposure_falsy [''v1'', ''v2''] =
        Inr [(''v2'', \<lparr>self_stake = 1, total_stake = 3, nominations = 2,
                       nominator_count = 1, rewards = 0, slashes = 0\<rparr>)]
   \<and> fst (update_metrics chain_exposure_falsy exporter_0) = None
   \<and> map_of (previous_stakes (snd (update_metrics chain_exposure_falsy exporter_0))) ''v1'' = None
   \<and> gauges_at (snd (update_metrics chain_exposure_falsy exporter_0)) (''v1'', ''v1'', ''active'')
        = gauges_at exporter_0 (''v1'', ''v1'', ''active'')"
proof -
  have era: "active_era chain_exposure_falsy = Value 7"
    by (simp add: chain_exposure_falsy_def idle_chain_def)
  have falsy: "eras_stakers chain_exposure_falsy 7 ''v1'' = Falsy"
    by (simp add: chain_exposure_falsy_def)
  have stakes: "get_validator_stakes chain_exposure_falsy [''v1'', ''v2''] =
        Inr [(''v2'', \<lparr>self_stake = 1, total_stake = 3, nominations = 2,
                       nominator_count = 1, rewards = 0, slashes = 0\<rparr>)]"
    by code_simp
  have lists: "listed (staking_validators chain_exposure_falsy) = Inr [''v1'', ''v2'']"
    "listed (session_validators chain_exposure_falsy) = Inr [''v1'']"
    by (simp_all add: listed_def chain_exposure_falsy_def idle_chain_def)
  have completes: "fst (update_metrics chain_exposure_falsy exporter_0) = None"
    by (simp add: update_metrics_def lists stakes and_then_def era_index_of_def era)
  from falsy_exposure_absent [OF era falsy, of "[''v1'', ''v2'']" exporter_0 "''v1''" "''active''"]
    era falsy stakes completes
  show ?thesis by simp
qed

section \<open>Identity resolution\<close>

lemma map_of_identities_loop:
  "map_of (identities_loop sub ws ids) w =
     (if w \<in> set ws then Some (identity_info sub w) else map_of ids w)"
  by (induction ws arbitrary: ids) (auto simp: update_conv')

text \<open>
  \<^bold>\<open>Claim C8\<close>, as the code has it. For a wallet that is a sub-identity of a parent,
  \<open>get_identities\<close> stores the display \<open>parent display / sub name\<close> when the parent's
  identity record is read and its display name is not empty, and the sub name alone when
  the record is read and its display name is empty. When the parent has no identity
  record, or reading it raises, the stored display is empty: the sub name is dropped, as
  the counterexample shows. The witness: sub-identity \<open>alice\<close> under a parent displaying
  \<open>Bob\<close> gives \<open>Bob/alice\<close>, and under a parent whose record has no display name \<open>alice\<close>.
\<close>

theorem sub_identity_display:
  assumes "super_of sub wallet = Value (parent_wallet, sub_raw)"
    and "wallet \<in> set wallets"
  shows "map_option display (map_of (get_identities sub wallets) wallet) =
     Some (case identity_of sub parent_wallet of
             Raises \<Rightarrow> ''''
           | Falsy \<Rightarrow> ''''
           | Value info \<Rightarrow>
               if extract_identity_value (info_display info) \<noteq> ''''
               then extract_identity_value (info_display info) @ ''/''
                      @ extract_identity_value sub_raw
               else extract_identity_value sub_raw)"
  using assms
  by (simp add: get_identities_def map_of_identities_loop identity_info_def Let_def
        empty_identity_def split: reply.split)

theorem sub_identity_display_witness:
  "super_of chain_identities ''v1'' = Value (''p1'', RawDict ''alice'')
   \<and> identity_of chain_identities ''p1'' = Value (named (RawDict ''Bob''))
   \<and> super_of chain_identities ''v2'' = Value (''p2'', RawDict ''alice'')
   \<and> identity_of chain_identities ''p2'' = Value (named NoneDict)
   \<and> map_option display (map_of (get_identities chain_identities [''v1'', ''v2'']) ''v1'')
        = Some ''Bob/alice''
   \<and> map_option display (map_of (get_identities chain_identities [''v1'', ''v2'']) ''v2'')
        = Some ''alice''"
proof -
  have s1: "super_of chain_identities ''v1'' = Value (''p1'', RawDict ''alice'')"
    and i1: "identity_of chain_identities ''p1'' = Value (named (RawDict ''Bob''))"
    and s2: "super_of chain_identities ''v2'' = Value (''p2'', RawDict ''alice'')"
    and i2: "identity_of chain_identities ''p2'' = Value (named NoneDict)"
    by (simp_all add: chain_identities_def)
  have "map_option display (map_of (get_identities chain_identities [''v1'', ''v2'']) ''v1'')
        = Some ''Bob/alice''"
    using sub_identity_display [OF s1, of "[''v1'', ''v2'']"] by (simp add: i1 named_def)
  moreover
  have "map_option display (map_of (get_identities chain_identities [''v1'', ''v2'']) ''v2'')
        = Some ''alice''"
    using sub_identity_display [OF s2, of "[''v1'', ''v2'']"] by (simp add: i2 named_def)
  ultimately show ?thesis using s1 i1 s2 i2 by simp
qed

theorem orphan_sub_identity_counterexample:
  "super_of chain_orphan ''v1'' = Value (''p1'', RawDict ''alice'')
   \<and> identity_of chain_orphan ''p1'' = Falsy
   \<and> extract_identity_value (RawDict ''alice'') = ''alice''
   \<and> map_of (get_identities chain_orphan [''v1'']) ''v1'' = Some empty_identity
   \<and> map_option display (map_of (get_identities chain_orphan [''v1'']) ''v1'') = Some ''''
   \<and> map_option display (map_of (get_identities chain_orphan [''v1'']) ''v1'') \<noteq> Some ''alice''"
  by (simp add: chain_orphan_def idle_chain_def get_identities_def identity_info_def
        empty_identity_def)

section \<open>The gauges after a poll cycle\<close>

lemma distinct_stakes_loop:
  "distinct (map fst st) \<Longrightarrow> distinct (map fst (stakes_loop sub era vs st))"
  by (induction vs arbitrary: st) (auto simp: distinct_update split: sum.split option.split)

lemma get_validator_stakes_distinct:
  "get_validator_stakes sub vs = Inr st \<Longrightarrow> distinct (map fst st)"
  by (auto simp: get_validator_stakes_def and_then_def distinct_stakes_loop split: sum.splits)

text \<open>A gauge that every pass of the loop sets under the validator's own labels holds,
  after the loop, the value of the validator's snapshot there, and is as before at every
  other label triple.\<close>

lemma emit_loop_gauge:
  assumes step: "\<And>item st. G (emit_validator active ids era item st) =
      (G st)((fst item, nm (fst item), lb (fst item)) \<mapsto> val (snd item))"
    and keys: "distinct (map fst items)"
  shows "G (emit_loop active ids era items st) (v, n, x) =
     (case map_of items v of
        None \<Rightarrow> G st (v, n, x)
      | Some s \<Rightarrow> if n = nm v \<and> x = lb v then Some (val s) else G st (v, n, x))"
  using keys
proof (induction items arbitrary: st)
  case Nil
  show ?case by simp
next
  case (Cons item items)
  have fresh: "map_of items (fst item) = None"
    using Cons.prems by (simp add: map_of_eq_None_iff)
  have rest: "distinct (map fst items)"
    using Cons.prems by simp
  show ?case
    using fresh by (cases item) (auto simp: Cons.IH [OF rest] step split: option.split)
qed

lemma emit_loop_rewards:
  "distinct (map fst items) \<Longrightarrow>
   VALIDATOR_REWARDS (emit_loop active ids era items st) (v, n, x) =
     (case map_of items v of
        None \<Rightarrow> VALIDATOR_REWARDS st (v, n, x)
      | Some s \<Rightarrow>
          if 0 < rewards s \<and> n = validator_name ids v \<and> x = str_nat era
          then Some (rewards s) else VALIDATOR_REWARDS st (v, n, x))"
proof (induction items arbitrary: st)
  case Nil
  show ?case by simp
next
  case (Cons item items)
  have fresh: "map_of items (fst item) = None"
    using Cons.prems by (simp add: map_of_eq_None_iff)
  have rest: "distinct (map fst items)"
    using Cons.prems by simp
  show ?case
    using fresh
    by (cases item) (auto simp: Cons.IH [OF rest] emit_validator_rewards split: option.split)
qed

lemma update_metrics_completes:
  assumes "listed (staking_validators sub) = Inr validators"
    and "listed (session_validators sub) = Inr active"
    and "get_validator_stakes sub validators = Inr stakes"
    and "era_index_of sub = Inr era"
  shows "update_metrics sub st =
     (None, (emit_loop active (get_identities sub validators) era stakes st)
              \<lparr>previous_stakes := stakes\<rparr>)"
  using assms by (simp add: update_metrics_def and_then_def Let_def)

text \<open>
  \<^bold>\<open>Claim C7.\<close> Take a poll cycle: \<open>update_metrics\<close> reads the validators, the active
  set, the snapshot map \<open>stakes\<close> and the era, and \<open>v\<close> is a validator of that map with
  snapshot \<open>s\<close>. The cycle completes, and in the state it leaves the rewards gauge at a
  label triple \<open>(v, n, x)\<close> is the reward of \<open>s\<close> when that reward is positive and the
  triple is address, name and era, and is what it was before the cycle in every other
  case; so with a reward of \<open>0\<close> or less the rewards gauge of \<open>v\<close> is left unchanged. The
  self stake, nominations, total stake and nominator count gauges at address, name and
  status hold the values of \<open>s\<close> in both cases.
\<close>

theorem update_metrics_rewards_gauge:
  assumes validators: "listed (staking_validators sub) = Inr validators"
    and active: "listed (session_validators sub) = Inr active"
    and stakes: "get_validator_stakes sub validators = Inr stakes"
    and era: "era_index_of sub = Inr era"
    and processed: "map_of stakes v = Some s"
  shows "fst (update_metrics sub st) = None
    \<and> VALIDATOR_REWARDS (snd (update_metrics sub st)) (v, n, x) =
        (if 0 < rewards s \<and> n = validator_name (get_identities sub validators) v
            \<and> x = str_nat era
         then Some (rewards s) else VALIDATOR_REWARDS st (v, n, x))
    \<and> VALIDATOR_SELF_STAKE (snd (update_metrics sub st))
        (v, validator_name (get_identities sub validators) v, status_of active v)
          = Some (self_stake s)
    \<and> VALIDATOR_NOMINATIONS (snd (update_metrics sub st))
        (v, validator_name (get_identities sub validators) v, status_of active v)
          = Some (nominations s)
    \<and> VALIDATOR_TOTAL_STAKE (snd (update_metrics sub st))
        (v, validator_name (get_identities sub validators) v, status_of active v)
          = Some (total_stake s)
    \<and> VALIDATOR_NOMINATOR_COUNT (snd (update_metrics sub st))
        (v, validator_name (get_identities sub validators) v, status_of active v)
          = Some (fl (of_nat (nominator_count s)))"
proof -
  note run = update_metrics_completes [OF validators active stakes era, of st]
  note keys = get_validator_stakes_distinct [OF stakes]
  have "fst (update_metrics sub st) = None"
    by (simp add: run)
  moreover have "VALIDATOR_REWARDS (snd (update_metrics sub st)) (v, n, x) =
        (if 0 < rewards s \<and> n = validator_name (get_identities sub validators) v
            \<and> x = str_nat era
         then Some (rewards s) else VALIDATOR_REWARDS st (v, n, x))"
    by (simp add: run emit_loop_rewards [OF keys] processed)
  moreover have "VALIDATOR_SELF_STAKE (snd (update_metrics sub st))
        (v, validator_name (get_identities sub validators) v, status_of active v)
          = Some (self_stake s)"
    by (simp add: run processed
          emit_loop_gauge [OF emit_validator_status_gauges(1) keys])
  moreover have "VALIDATOR_NOMINATIONS (snd (update_metrics sub st))
        (v, validator_name (get_identities sub validators) v, status_of active v)
          = Some (nominations s)"
    by (simp add: run processed
          emit_loop_gauge [OF emit_validator_status_gauges(2) keys])
  moreover have "VALIDATOR_TOTAL_STAKE (snd (update_metrics sub st))
        (v, validator_name (get_identities sub validators) v, status_of active v)
          = Some (total_stake s)"
    by (simp add: run processed
          emit_loop_gauge [OF emit_validator_status_gauges(3) keys])
  moreover have "VALIDATOR_NOMINATOR_COUNT (snd (update_metrics sub st))
        (v, validator_name (get_identities sub validators) v, status_of active v)
          = Some (fl (of_nat (nominator_count s)))"
    by (simp add: run processed
          emit_loop_gauge [OF emit_validator_status_gauges(4) keys])
  ultimately show ?thesis by blast
qed

theorem update_metrics_rewards_gauge_witness:
  "listed (staking_validators chain_cycle) = Inr [''v1'', ''v2'']
   \<and> listed (session_validators chain_cycle) = Inr [''v1'']
   \<and> get_validator_stakes chain_cycle [''v1'', ''v2''] =
        Inr [(''v1'', \<lparr>self_stake = 1, total_stake = 3, nominations = 2,
                       nominator_count = 1, rewards = 1000, slashes = 0\<rparr>),
             (''v2'', \<lparr>self_stake = 1, total_stake = 3, nominations = 2,
                       nominator_count = 1, rewards = 0, slashes = 0\<rparr>)]
   \<and> era_index_of chain_cycle = Inr 7
   \<and> fst (update_metrics chain_cycle exporter_0) = None
   \<and> VALIDATOR_REWARDS (snd (update_metrics chain_cycle exporter_0)) (''v1'', ''v1'', ''7'')
        = Some 1000
   \<and> VALIDATOR_REWARDS (snd (update_metrics chain_cycle exporter_0)) (''v2'', ''v2'', ''7'')
        = VALIDATOR_REWARDS exporter_0 (''v2'', ''v2'', ''7'')
   \<and> VALIDATOR_TOTAL_STAKE (snd (update_metrics chain_cycle exporter_0))
        (''v2'', ''v2'', ''waiting'') = Some 3
   \<and> VALIDATOR_NOMINATOR_COUNT (snd (update_metrics chain_cycle exporter_0))
        (''v1'', ''v1'', ''active'') = Some 1"
proof -
  have validators: "listed (staking_validators chain_cycle) = Inr [''v1'', ''v2'']"
    and active: "listed (session_validators chain_cycle) = Inr [''v1'']"
    by (simp_all add: listed_def chain_cycle_def idle_chain_def)
  have stakes: "get_validator_stakes chain_cycle [''v1'', ''v2''] =
        Inr [(''v1'', \<lparr>self_stake = 1, total_stake = 3, nominations = 2,
                       nominator_count = 1, rewards = 1000, slashes = 0\<rparr>),
             (''v2'', \<lparr>self_stake = 1, total_stake = 3, nominations = 2,
                       nominator_count = 1, rewards = 0, slashes = 0\<rparr>)]"
    by code_simp
  have era: "era_index_of chain_cycle = Inr 7"
    by (simp add: era_index_of_def chain_cycle_def idle_chain_def)
  have names: "validator_name (get_identities chain_cycle [''v1'', ''v2'']) ''v1'' = ''v1''"
    "validator_name (get_identities chain_cycle [''v1'', ''v2'']) ''v2'' = ''v2''"
    by code_simp+
  have status: "status_of [''v1''] ''v1'' = ''active''" "status_of [''v1''] ''v2'' = ''waiting''"
    by (simp_all add: status_of_def)
  have one: "fl 1 = 1"
    by code_simp
  from update_metrics_rewards_gauge [OF validators active stakes era, of "''v1''" _
      exporter_0 "''v1''" "''7''"]
    update_metrics_rewards_gauge [OF validators active stakes era, of "''v2''" _
      exporter_0 "''v2''" "''7''"]
    validators active stakes era
  show ?thesis
    by (simp add: names status str_nat_examples one)
qed

end
